theory Spec2Isabelle
  imports Main
begin

section \<open>Text\<close>

text \<open>
  The chat client of \<^verbatim>\<open>jarvis_psycho_pass_app.tsx\<close> is a React component whose state lives in
  \<^verbatim>\<open>useState\<close> cells and \<^verbatim>\<open>useRef\<close> boxes and whose code runs as event handlers, one at a time.
  The handlers are embedded here as functions from the state before to the state after.

  JavaScript strings are held as byte strings, in UTF-8 where a code point lies beyond ASCII.
\<close>

text \<open>
  \<^verbatim>\<open>String.prototype.trim\<close> removes the ECMAScript WhiteSpace and LineTerminator code points
  from both ends: TAB, LF, VT, FF, CR, SPACE, U+00A0, U+1680, U+2000 to U+200A, U+2028, U+2029,
  U+202F, U+205F, U+3000 and U+FEFF.
\<close>

definition whitespace :: "string list" where
  "whitespace =
     [[CHR 0x09], [CHR 0x0A], [CHR 0x0B], [CHR 0x0C], [CHR 0x0D], [CHR 0x20],
      [CHR 0xC2, CHR 0xA0],
      [CHR 0xE1, CHR 0x9A, CHR 0x80],
      [CHR 0xE2, CHR 0x80, CHR 0x80], [CHR 0xE2, CHR 0x80, CHR 0x81],
      [CHR 0xE2, CHR 0x80, CHR 0x82], [CHR 0xE2, CHR 0x80, CHR 0x83],
      [CHR 0xE2, CHR 0x80, CHR 0x84], [CHR 0xE2, CHR 0x80, CHR 0x85],
      [CHR 0xE2, CHR 0x80, CHR 0x86], [CHR 0xE2, CHR 0x80, CHR 0x87],
      [CHR 0xE2, CHR 0x80, CHR 0x88], [CHR 0xE2, CHR 0x80, CHR 0x89],
      [CHR 0xE2, CHR 0x80, CHR 0x8A],
      [CHR 0xE2, CHR 0x80, CHR 0xA8], [CHR 0xE2, CHR 0x80, CHR 0xA9],
      [CHR 0xE2, CHR 0x80, CHR 0xAF],
      [CHR 0xE2, CHR 0x81, CHR 0x9F],
      [CHR 0xE3, CHR 0x80, CHR 0x80],
      [CHR 0xEF, CHR 0xBB, CHR 0xBF]]"

definition ws_prefix :: "string \<Rightarrow> string option" where
  \<comment> \<open>the text after one leading whitespace code point, if the text starts with one\<close>
  "ws_prefix s =
     (case find (\<lambda>w. take (length w) s = w) whitespace of
        None \<Rightarrow> None
      | Some w \<Rightarrow> Some (drop (length w) s))"

lemma whitespace_nonempty: "w \<in> set whitespace \<Longrightarrow> 0 < length w"
  unfolding whitespace_def by auto

lemma ws_prefix_shorter: "ws_prefix s = Some r \<Longrightarrow> length r < length s"
proof -
  assume a: "ws_prefix s = Some r"
  then obtain w where f: "find (\<lambda>w. take (length w) s = w) whitespace = Some w"
    and r: "r = drop (length w) s"
    by (auto simp: ws_prefix_def split: option.splits)
  from f have mem: "w \<in> set whitespace" and tk: "take (length w) s = w"
    by (auto simp: find_Some_iff)
  have pos: "0 < length w" using mem by (rule whitespace_nonempty)
  have "length w \<le> length s"
  proof (rule ccontr)
    assume "\<not> length w \<le> length s"
    then have "length (take (length w) s) < length w" by simp
    with tk show False by simp
  qed
  with pos have "length s - length w < length s" by arith
  with r show ?thesis by simp
qed

function trimStart :: "string \<Rightarrow> string" where
  "trimStart s = (case ws_prefix s of None \<Rightarrow> s | Some r \<Rightarrow> trimStart r)"
  by pat_completeness auto
termination
  by (relation "measure length") (auto dest: ws_prefix_shorter)

declare trimStart.simps [simp del]

definition ws_suffix :: "string \<Rightarrow> string option" where
  \<comment> \<open>the text before one trailing whitespace code point, if the text ends with one\<close>
  "ws_suffix s =
     (case find (\<lambda>w. length w \<le> length s \<and> drop (length s - length w) s = w) whitespace of
        None \<Rightarrow> None
      | Some w \<Rightarrow> Some (take (length s - length w) s))"

lemma ws_suffix_shorter: "ws_suffix s = Some r \<Longrightarrow> length r < length s"
proof -
  assume a: "ws_suffix s = Some r"
  then obtain w
    where f: "find (\<lambda>w. length w \<le> length s \<and> drop (length s - length w) s = w) whitespace = Some w"
      and r: "r = take (length s - length w) s"
    by (auto simp: ws_suffix_def split: option.splits)
  from f have mem: "w \<in> set whitespace" and le: "length w \<le> length s"
    by (auto simp: find_Some_iff)
  have "0 < length w" using mem by (rule whitespace_nonempty)
  with le have "length s - length w < length s" by arith
  with r show ?thesis by simp
qed

function trimEnd :: "string \<Rightarrow> string" where
  "trimEnd s = (case ws_suffix s of None \<Rightarrow> s | Some r \<Rightarrow> trimEnd r)"
  by pat_completeness auto
termination
  by (relation "measure length") (auto dest: ws_suffix_shorter)

declare trimEnd.simps [simp del]

definition trim :: "string \<Rightarrow> string" where
  "trim s = trimEnd (trimStart s)"

text \<open>Decimal digits of a number, as a template literal prints \<^verbatim>\<open>files.length\<close>.\<close>

function string_of_nat :: "nat \<Rightarrow> string" where
  "string_of_nat n =
     (if n < 10 then [char_of (48 + n)]
      else string_of_nat (n div 10) @ [char_of (48 + n mod 10)])"
  by pat_completeness auto
termination
  by (relation "measure id") auto

declare string_of_nat.simps [simp del]

text \<open>\<^verbatim>\<open>Array.prototype.join\<close> on an array of strings.\<close>

fun join :: "string \<Rightarrow> string list \<Rightarrow> string" where
  "join sep [] = []"
| "join sep [x] = x"
| "join sep (x # y # ys) = x @ sep @ join sep (y # ys)"

section \<open>Data model\<close>

text \<open>
  An entry of the \<^verbatim>\<open>messages\<close> array. The code builds the entries as object literals; a
  field an object literal leaves out is \<open>None\<close> here, and reads falsy as \<^verbatim>\<open>undefined\<close> does.
  \<^verbatim>\<open>id\<close> is \<^verbatim>\<open>Date.now()\<close>, the clock in milliseconds, and \<^verbatim>\<open>timestamp\<close> is \<^verbatim>\<open>new Date()\<close>,
  held as the same number.
\<close>

datatype msg_type = System | Assistant | User | Error

record Message =
  id_msg :: int
  type :: msg_type
  content :: string
  timestamp :: int
  streaming :: "bool option"
  webSearch :: "bool option"
  thinking :: "bool option"
  files :: "string list option"

text \<open>The parsed JSON of an inbound frame: \<^verbatim>\<open>data.type\<close>, \<^verbatim>\<open>data.status\<close>, \<^verbatim>\<open>data.full\<close>, \<^verbatim>\<open>data.message\<close>.
  Each branch of the handler reads the field of its own kind only. A frame that is not JSON
  makes \<^verbatim>\<open>JSON.parse\<close> throw in \<^verbatim>\<open>onmessage\<close>, before the handler is called.\<close>

record ws_data =
  type_in :: string
  status :: string
  full :: string
  message_in :: string

text \<open>The object that \<^verbatim>\<open>handleSendMessage\<close> serialises and sends.\<close>

record chat_event =
  type_out :: string
  message_out :: string
  webSearch_out :: bool
  thinkingMode_out :: bool
  model :: string

text \<open>A \<^verbatim>\<open>WebSocket\<close> object: its \<^verbatim>\<open>readyState\<close> and the frames handed to \<^verbatim>\<open>send\<close>, oldest first.\<close>

datatype ready_state = CONNECTING | OPEN | CLOSING | CLOSED

record websocket =
  readyState :: ready_state
  sent :: "chat_event list"

datatype connection_status = Disconnected | Connected | ConnError

text \<open>
  The state of the component that the chat session uses: the \<^verbatim>\<open>useState\<close> cells, the two refs,
  and what the browser holds for the component: the sockets it has constructed (\<open>wsRef\<close> is an
  index into them), the number of pending \<^verbatim>\<open>setTimeout(connectWebSocket, 3000)\<close> callbacks,
  and whether the status polling interval is live. The cells for theme, view, plugins, model
  list and system status are read and written by none of the functions below and are left out.
\<close>

record app_state =
  messages :: "Message list"
  inputText :: string
  isThinking :: bool
  webSearchEnabled :: bool
  thinkingMode :: bool
  selectedModel :: string
  connectionStatus :: connection_status
  wsRef :: "nat option"
  currentMessageRef :: string
  sockets :: "websocket list"
  timers :: nat
  statusInterval :: bool

definition init :: app_state where
  "init = \<lparr>messages = [], inputText = [], isThinking = False, webSearchEnabled = False,
     thinkingMode = False, selectedModel = ''phi3:3.8b'', connectionStatus = Disconnected,
     wsRef = None, currentMessageRef = [], sockets = [], timers = 0, statusInterval = False\<rparr>"

section \<open>Connection lifecycle\<close>

text \<open>
  \<^verbatim>\<open>connectWebSocket\<close>: construct a socket, attach the four handlers, store it in \<^verbatim>\<open>wsRef\<close>.
  The constructor throws only on a malformed URL and \<^verbatim>\<open>WS_URL\<close> is a well-formed constant, so
  the \<^verbatim>\<open>catch\<close> branch is not taken. Every socket gets the same handlers, below.
\<close>

definition connectWebSocket :: "app_state \<Rightarrow> app_state" where
  "connectWebSocket s =
     s\<lparr>sockets := sockets s @ [\<lparr>readyState = CONNECTING, sent = []\<rparr>],
       wsRef := Some (length (sockets s))\<rparr>"

definition onopen :: "int \<Rightarrow> app_state \<Rightarrow> app_state" where
  "onopen now s =
     s\<lparr>connectionStatus := Connected,
       messages := messages s @
         [\<lparr>id_msg = now, type = System, content = ''Connected to JARVIS. Ready to assist!'',
           timestamp = now, streaming = None, webSearch = None, thinking = None,
           files = None\<rparr>]\<rparr>"

definition onerror :: "app_state \<Rightarrow> app_state" where
  "onerror s = s\<lparr>connectionStatus := ConnError\<rparr>"

definition onclose :: "app_state \<Rightarrow> app_state" where
  \<comment> \<open>the timeout's handle is dropped: nothing can clear it\<close>
  "onclose s = s\<lparr>connectionStatus := Disconnected, timers := timers s + 1\<rparr>"

text \<open>\<^verbatim>\<open>WebSocket.close()\<close>: a socket that is connecting or open starts closing; otherwise nothing.\<close>

definition close :: "websocket \<Rightarrow> websocket" where
  "close w = (if readyState w = CONNECTING \<or> readyState w = OPEN
              then w\<lparr>readyState := CLOSING\<rparr> else w)"

text \<open>The cleanup function of the mount effect: clear the polling interval, close the current
  socket if there is one.\<close>

definition cleanup :: "app_state \<Rightarrow> app_state" where
  "cleanup s =
     (let s1 = s\<lparr>statusInterval := False\<rparr> in
      case wsRef s of
        None \<Rightarrow> s1
      | Some i \<Rightarrow> if i < length (sockets s) then s1\<lparr>sockets := (sockets s)[i := close (sockets s ! i)]\<rparr>
                  else s1)"

section \<open>Inbound events\<close>

definition lastMsg :: "Message list \<Rightarrow> Message option" where
  \<comment> \<open>\<^verbatim>\<open>prev[prev.length - 1]\<close>, \<^verbatim>\<open>undefined\<close> on the empty array\<close>
  "lastMsg prev = (if prev = [] then None else Some (last prev))"

definition truthy :: "bool option \<Rightarrow> bool" where
  "truthy b = (b = Some True)"

definition handleWebSocketMessage :: "int \<Rightarrow> ws_data \<Rightarrow> app_state \<Rightarrow> app_state" where
  "handleWebSocketMessage now data s =
     (if type_in data = ''status'' then
        (if status data = ''thinking'' then s\<lparr>isThinking := True\<rparr> else s)
      else if type_in data = ''chunk'' then
        s\<lparr>currentMessageRef := full data,
          messages :=
            (case lastMsg (messages s) of
               Some m \<Rightarrow>
                 if type m = Assistant \<and> truthy (streaming m)
                 then butlast (messages s) @ [m\<lparr>content := full data\<rparr>]
                 else messages s @
                   [\<lparr>id_msg = now, type = Assistant, content = full data, timestamp = now,
                     streaming = Some True, webSearch = None, thinking = None, files = None\<rparr>]
             | None \<Rightarrow>
                 messages s @
                   [\<lparr>id_msg = now, type = Assistant, content = full data, timestamp = now,
                     streaming = Some True, webSearch = None, thinking = None, files = None\<rparr>])\<rparr>
      else if type_in data = ''complete'' then
        s\<lparr>isThinking := False,
          currentMessageRef := [],
          messages :=
            (case lastMsg (messages s) of
               Some m \<Rightarrow>
                 if truthy (streaming m)
                 then butlast (messages s) @ [m\<lparr>streaming := Some False\<rparr>]
                 else messages s
             | None \<Rightarrow> messages s)\<rparr>
      else if type_in data = ''error'' then
        s\<lparr>isThinking := False,
          messages := messages s @
            [\<lparr>id_msg = now, type = Error, content = ''Error: '' @ message_in data,
              timestamp = now, streaming = None, webSearch = None, thinking = None,
              files = None\<rparr>]\<rparr>
      else if type_in data = ''pong'' then s
      else s)"

section \<open>Local calls\<close>

text \<open>
  \<^verbatim>\<open>handleSendMessage\<close> returns early, with no effect, on blank input or when the status cell
  is not \<^verbatim>\<open>'connected'\<close>. Otherwise it appends the user entry, clears the input, and sends the
  frame if \<^verbatim>\<open>wsRef.current\<close> is set and its \<^verbatim>\<open>readyState\<close> is \<^verbatim>\<open>OPEN\<close>.

  The function has no \<^verbatim>\<open>throw\<close>: the early return is a bare \<^verbatim>\<open>return\<close>, and on both paths the
  caller gets \<^verbatim>\<open>undefined\<close>. The result is therefore \<open>Inr ()\<close> on both paths. \<open>Inl\<close> would be a
  thrown error; \<open>NotReadyError\<close> is the name the specification gives to a rejected call, and
  no path of the code produces it.
\<close>

datatype error = NotReadyError

definition handleSendMessage :: "int \<Rightarrow> app_state \<Rightarrow> (error + unit) \<times> app_state" where
  "handleSendMessage now s =
     (if trim (inputText s) = [] \<or> connectionStatus s \<noteq> Connected then (Inr (), s)
      else
        let newMessage =
              \<lparr>id_msg = now, type = User, content = inputText s, timestamp = now,
                streaming = None, webSearch = Some (webSearchEnabled s),
                thinking = Some (thinkingMode s), files = None\<rparr>;
            frame =
              \<lparr>type_out = ''chat'', message_out = inputText s,
                webSearch_out = webSearchEnabled s, thinkingMode_out = thinkingMode s,
                model = selectedModel s\<rparr>;
            s1 = s\<lparr>messages := messages s @ [newMessage], inputText := []\<rparr>
        in (Inr (),
            case wsRef s of
              None \<Rightarrow> s1
            | Some i \<Rightarrow>
                if i < length (sockets s) \<and> readyState (sockets s ! i) = OPEN
                then s1\<lparr>sockets :=
                        (sockets s)[i := (sockets s ! i)\<lparr>sent := sent (sockets s ! i) @ [frame]\<rparr>]\<rparr>
                else s1))"

text \<open>
  \<^verbatim>\<open>handleFileSelect\<close>, from the chosen files' names and what the POST to \<^verbatim>\<open>/api/upload\<close> came
  to: a parsed response with its \<^verbatim>\<open>success\<close> and \<^verbatim>\<open>files\<close> fields, or an exception of \<^verbatim>\<open>fetch\<close> or
  of \<^verbatim>\<open>response.json()\<close> with its message. \<open>paperclip\<close> is the code point U+1F4CE.
\<close>

record upload_result =
  success :: bool
  result_files :: "string list"

datatype upload_outcome = Response upload_result | Threw string

definition paperclip :: string where
  "paperclip = [CHR 0xF0, CHR 0x9F, CHR 0x93, CHR 0x8E]"

definition handleFileSelect :: "int \<Rightarrow> string list \<Rightarrow> upload_outcome \<Rightarrow> app_state \<Rightarrow> app_state" where
  "handleFileSelect now names outcome s =
     (if length names = 0 then s
      else case outcome of
        Response result \<Rightarrow>
          if success result
          then s\<lparr>messages := messages s @
                 [\<lparr>id_msg = now, type = User,
                   content = paperclip @ '' Uploaded '' @ string_of_nat (length names) @
                             '' file(s): '' @ join '', '' names,
                   timestamp = now, streaming = None, webSearch = None, thinking = None,
                   files = Some (result_files result)\<rparr>]\<rparr>
          else s
      | Threw msg \<Rightarrow>
          s\<lparr>messages := messages s @
             [\<lparr>id_msg = now, type = Error, content = ''Failed to upload files: '' @ msg,
               timestamp = now, streaming = None, webSearch = None, thinking = None,
               files = None\<rparr>]\<rparr>)"

section \<open>Events\<close>

text \<open>
  Everything that runs code of the component, with the clock reading at that moment: the mount
  effect and its cleanup, the four socket events (on the socket with the given index; the
  browser sets \<^verbatim>\<open>readyState\<close> before it calls \<^verbatim>\<open>onopen\<close> and \<^verbatim>\<open>onclose\<close>), a reconnect timeout
  firing, and the controls of the chat view. \<open>SelectModel\<close> stands for every call of
  \<^verbatim>\<open>setSelectedModel\<close>: the model menu, and \<^verbatim>\<open>loadSettings\<close> when its response names a model.
  \<open>FileSelect\<close> is the moment the upload's outcome is known. Which event the browser can
  deliver when is not restricted, beyond the socket or the timeout having to exist, and the
  cells are updated also after a cleanup (React keeps them when the effect is run again and
  drops the updates once the component is gone for good): the states reached here include
  every state the component can be in.
\<close>

datatype event =
    Mount
  | Unmount
  | WsOpen nat
  | WsMessage nat ws_data
  | WsError nat
  | WsClose nat
  | ReconnectTimer
  | InputChange string
  | ToggleWebSearch
  | ToggleThinkingMode
  | SelectModel string
  | SendMessage
  | FileSelect "string list" upload_outcome

fun step :: "int \<Rightarrow> event \<Rightarrow> app_state \<Rightarrow> app_state" where
  "step now Mount s = (connectWebSocket s)\<lparr>statusInterval := True\<rparr>"
| "step now Unmount s = cleanup s"
| "step now (WsOpen i) s =
     (if i < length (sockets s)
      then onopen now (s\<lparr>sockets := (sockets s)[i := (sockets s ! i)\<lparr>readyState := OPEN\<rparr>]\<rparr>)
      else s)"
| "step now (WsMessage i data) s =
     (if i < length (sockets s) then handleWebSocketMessage now data s else s)"
| "step now (WsError i) s = (if i < length (sockets s) then onerror s else s)"
| "step now (WsClose i) s =
     (if i < length (sockets s)
      then onclose (s\<lparr>sockets := (sockets s)[i := (sockets s ! i)\<lparr>readyState := CLOSED\<rparr>]\<rparr>)
      else s)"
| "step now ReconnectTimer s =
     (if 0 < timers s then connectWebSocket (s\<lparr>timers := timers s - 1\<rparr>) else s)"
| "step now (InputChange text) s = s\<lparr>inputText := text\<rparr>"
| "step now ToggleWebSearch s = s\<lparr>webSearchEnabled := \<not> webSearchEnabled s\<rparr>"
| "step now ToggleThinkingMode s = s\<lparr>thinkingMode := \<not> thinkingMode s\<rparr>"
| "step now (SelectModel m) s = s\<lparr>selectedModel := m\<rparr>"
| "step now SendMessage s = snd (handleSendMessage now s)"
| "step now (FileSelect names outcome) s = handleFileSelect now names outcome s"

fun run :: "(int \<times> event) list \<Rightarrow> app_state \<Rightarrow> app_state" where
  "run [] s = s"
| "run ((now, e) # es) s = run es (step now e s)"

inductive reachable :: "app_state \<Rightarrow> bool" where
  reachable_init: "reachable init"
| reachable_step: "reachable s \<Longrightarrow> reachable (step now e s)"

section \<open>Inbound frames and sample sessions\<close>

text \<open>The frames the backend sends, as \<^verbatim>\<open>JSON.parse\<close> returns them.\<close>

definition status_event :: "string \<Rightarrow> ws_data" where
  "status_event st = \<lparr>type_in = ''status'', status = st, full = [], message_in = []\<rparr>"

definition chunk_event :: "string \<Rightarrow> ws_data" where
  "chunk_event text = \<lparr>type_in = ''chunk'', status = [], full = text, message_in = []\<rparr>"

definition complete_event :: ws_data where
  "complete_event = \<lparr>type_in = ''complete'', status = [], full = [], message_in = []\<rparr>"

definition error_event :: "string \<Rightarrow> ws_data" where
  "error_event msg = \<lparr>type_in = ''error'', status = [], full = [], message_in = msg\<rparr>"

text \<open>A run of inbound frames through the handler, each with the clock at its arrival.\<close>

fun deliver :: "(int \<times> ws_data) list \<Rightarrow> app_state \<Rightarrow> app_state" where
  "deliver [] s = s"
| "deliver ((now, data) # rest) s = deliver rest (handleWebSocketMessage now data s)"

text \<open>The component mounted and its socket open: one system entry, status \<^verbatim>\<open>'connected'\<close>.\<close>

definition connected_state :: app_state where
  "connected_state = run [(1000, Mount), (1020, WsOpen 0)] init"

text \<open>The same session after the backend announced that it is thinking.\<close>

definition busy_state :: app_state where
  "busy_state = run [(1500, WsMessage 0 (status_event ''thinking''))] connected_state"

text \<open>The same session with an answer in flight.\<close>

definition midstream_state :: app_state where
  "midstream_state = run [(2000, WsMessage 0 (chunk_event ''Hi''))] connected_state"

text \<open>An error frame arrives while the answer is in flight, then the next answer starts.\<close>

definition dangling_state :: app_state where
  "dangling_state =
     run [(3000, WsMessage 0 (error_event ''boom'')), (4000, WsMessage 0 (chunk_event ''Hello''))]
       midstream_state"

text \<open>
  The mount effect run twice with its cleanup in between, as React's strict mode does in
  development: the first socket is closed while connecting and its \<^verbatim>\<open>close\<close> event schedules a
  reconnect; the second socket opens; three seconds later the timeout constructs a third
  socket, which \<^verbatim>\<open>wsRef\<close> now holds and which is still connecting when the user has typed.
\<close>

definition remount_state :: app_state where
  "remount_state =
     run [(1000, Mount), (1001, Unmount), (1002, Mount), (1010, WsError 0), (1010, WsClose 0),
          (1020, WsOpen 1), (4010, ReconnectTimer), (4011, InputChange ''hello'')] init"

section \<open>Predicates of the session\<close>

definition is_streaming :: "Message \<Rightarrow> bool" where
  "is_streaming m = truthy (streaming m)"

text \<open>At most one entry is streaming, and if one is, it is the last.\<close>

definition session_inv :: "Message list \<Rightarrow> bool" where
  "session_inv ms =
     (length (filter is_streaming ms) \<le> 1
      \<and> (filter is_streaming ms = [] \<or> is_streaming (last ms)))"

text \<open>Every streaming entry is an assistant entry.\<close>

definition streams_assistant :: "Message list \<Rightarrow> bool" where
  "streams_assistant ms = list_all (\<lambda>m. \<not> is_streaming m \<or> type m = Assistant) ms"

definition streaming_assistant_last :: "Message list \<Rightarrow> bool" where
  "streaming_assistant_last ms =
     (ms \<noteq> [] \<and> type (last ms) = Assistant \<and> is_streaming (last ms))"

text \<open>The events whose handler appends an entry that is not streaming: the socket opening, an
  error frame, a send, an upload.\<close>

fun appends_entry :: "event \<Rightarrow> bool" where
  "appends_entry (WsOpen i) = True"
| "appends_entry (WsMessage i data) = (type_in data = ''error'')"
| "appends_entry SendMessage = True"
| "appends_entry (FileSelect names outcome) = True"
| "appends_entry e = False"

text \<open>\<^verbatim>\<open>wsRef.current && wsRef.current.readyState === WebSocket.OPEN\<close>.\<close>

definition ws_open :: "app_state \<Rightarrow> bool" where
  "ws_open s =
     (case wsRef s of None \<Rightarrow> False
      | Some i \<Rightarrow> i < length (sockets s) \<and> readyState (sockets s ! i) = OPEN)"

text \<open>The number of frames handed to \<^verbatim>\<open>send\<close> so far, over all sockets.\<close>

definition frames_sent :: "app_state \<Rightarrow> nat" where
  "frames_sent s = sum_list (map (\<lambda>w. length (sent w)) (sockets s))"

section \<open>Auxiliary facts\<close>

lemma trim_blank: "trim ''   '' = []"
  by code_simp

lemma trim_hello: "trim ''hello'' = ''hello''"
  by code_simp

lemma connected_state_eq:
  "connected_state =
     \<lparr>messages =
        [\<lparr>id_msg = 1020, type = System, content = ''Connected to JARVIS. Ready to assist!'',
          timestamp = 1020, streaming = None, webSearch = None, thinking = None,
          files = None\<rparr>],
      inputText = [], isThinking = False, webSearchEnabled = False, thinkingMode = False,
      selectedModel = ''phi3:3.8b'', connectionStatus = Connected, wsRef = Some 0,
      currentMessageRef = [], sockets = [\<lparr>readyState = OPEN, sent = []\<rparr>], timers = 0,
      statusInterval = True\<rparr>"
  by (simp add: connected_state_def init_def connectWebSocket_def onopen_def)

lemma busy_state_eq: "busy_state = connected_state\<lparr>isThinking := True\<rparr>"
  by (simp add: busy_state_def connected_state_eq handleWebSocketMessage_def status_event_def)

lemma midstream_state_eq:
  "midstream_state =
     \<lparr>messages =
        [\<lparr>id_msg = 1020, type = System, content = ''Connected to JARVIS. Ready to assist!'',
          timestamp = 1020, streaming = None, webSearch = None, thinking = None,
          files = None\<rparr>,
         \<lparr>id_msg = 2000, type = Assistant, content = ''Hi'', timestamp = 2000,
          streaming = Some True, webSearch = None, thinking = None, files = None\<rparr>],
      inputText = [], isThinking = False, webSearchEnabled = False, thinkingMode = False,
      selectedModel = ''phi3:3.8b'', connectionStatus = Connected, wsRef = Some 0,
      currentMessageRef = ''Hi'', sockets = [\<lparr>readyState = OPEN, sent = []\<rparr>], timers = 0,
      statusInterval = True\<rparr>"
  by (simp add: midstream_state_def connected_state_eq handleWebSocketMessage_def
      chunk_event_def lastMsg_def truthy_def)

lemma remount_state_eq:
  "remount_state =
     \<lparr>messages =
        [\<lparr>id_msg = 1020, type = System, content = ''Connected to JARVIS. Ready to assist!'',
          timestamp = 1020, streaming = None, webSearch = None, thinking = None,
          files = None\<rparr>],
      inputText = ''hello'', isThinking = False, webSearchEnabled = False, thinkingMode = False,
      selectedModel = ''phi3:3.8b'', connectionStatus = Connected, wsRef = Some 2,
      currentMessageRef = [],
      sockets = [\<lparr>readyState = CLOSED, sent = []\<rparr>, \<lparr>readyState = OPEN, sent = []\<rparr>,
                 \<lparr>readyState = CONNECTING, sent = []\<rparr>],
      timers = 0, statusInterval = True\<rparr>"
  by (simp add: remount_state_def init_def connectWebSocket_def onopen_def onclose_def
      onerror_def cleanup_def close_def)

lemma reachable_run: "reachable s \<Longrightarrow> reachable (run es s)"
proof (induction es arbitrary: s)
  case Nil
  then show ?case by simp
next
  case (Cons a es)
  obtain now e where a: "a = (now, e)" by (cases a)
  from Cons.prems have "reachable (step now e s)" by (rule reachable_step)
  then have "reachable (run es (step now e s))" by (rule Cons.IH)
  with a show ?case by simp
qed

lemma reachable_connected_state: "reachable connected_state"
  unfolding connected_state_def by (rule reachable_run) (rule reachable_init)

lemma reachable_midstream_state: "reachable midstream_state"
  unfolding midstream_state_def by (rule reachable_run) (rule reachable_connected_state)

lemma sum_list_map_update_Suc:
  fixes f :: "'a \<Rightarrow> nat"
  assumes "i < length xs" "f x = Suc (f (xs ! i))"
  shows "sum_list (map f (xs[i := x])) = Suc (sum_list (map f xs))"
  using assms
proof (induction xs arbitrary: i)
  case Nil
  then show ?case by simp
next
  case (Cons a xs)
  then show ?case by (cases i) auto
qed

subsection \<open>The streaming entry\<close>

lemma session_inv_butlast:
  "session_inv ms \<longleftrightarrow> ms = [] \<or> filter is_streaming (butlast ms) = []"
proof (cases "ms = []")
  case True
  then show ?thesis by (simp add: session_inv_def)
next
  case False
  then have ms: "ms = butlast ms @ [last ms]" by simp
  have f: "filter is_streaming ms
           = filter is_streaming (butlast ms) @ (if is_streaming (last ms) then [last ms] else [])"
    by (subst ms) simp
  show ?thesis
    using False unfolding session_inv_def f
    by (cases "is_streaming (last ms)") auto
qed

lemma session_inv_snoc:
  "filter is_streaming ms = [] \<Longrightarrow> session_inv (ms @ [m])"
  by (simp add: session_inv_butlast)

lemma session_inv_replace_last:
  "session_inv ms \<Longrightarrow> session_inv (butlast ms @ [m])"
  by (auto simp: session_inv_butlast)

lemma session_inv_quiet:
  assumes inv: "session_inv ms" and q: "ms = [] \<or> \<not> is_streaming (last ms)"
  shows "filter is_streaming ms = []"
proof (cases "ms = []")
  case True
  then show ?thesis by simp
next
  case False
  then have ms: "ms = butlast ms @ [last ms]" by simp
  from inv False have b: "filter is_streaming (butlast ms) = []"
    by (simp add: session_inv_butlast)
  from q False have nl: "\<not> is_streaming (last ms)" by simp
  have "filter is_streaming ms
         = filter is_streaming (butlast ms) @ (if is_streaming (last ms) then [last ms] else [])"
    by (subst ms) simp
  with b nl show ?thesis by simp
qed

lemma streams_assistant_snoc:
  "streams_assistant ms \<Longrightarrow> \<not> is_streaming m \<or> type m = Assistant
     \<Longrightarrow> streams_assistant (ms @ [m])"
  by (simp add: streams_assistant_def)

lemma streams_assistant_last:
  "streams_assistant ms \<Longrightarrow> ms \<noteq> [] \<Longrightarrow> is_streaming (last ms) \<Longrightarrow> type (last ms) = Assistant"
  by (auto simp: streams_assistant_def list_all_iff)

lemma handle_streams_assistant:
  assumes "streams_assistant (messages s)"
  shows "streams_assistant (messages (handleWebSocketMessage now data s))"
  using assms
  by (auto simp: handleWebSocketMessage_def lastMsg_def is_streaming_def truthy_def
      streams_assistant_def list_all_iff dest: in_set_butlastD)

lemma step_streams_assistant:
  assumes "streams_assistant (messages s)"
  shows "streams_assistant (messages (step now e s))"
proof (cases e)
  case (WsMessage i data)
  then show ?thesis using assms by (simp add: handle_streams_assistant)
next
  case (WsOpen i)
  then show ?thesis using assms
    by (auto simp: onopen_def is_streaming_def truthy_def intro!: streams_assistant_snoc)
next
  case SendMessage
  then show ?thesis using assms
    by (auto simp: handleSendMessage_def Let_def is_streaming_def truthy_def
        split: option.splits intro!: streams_assistant_snoc)
next
  case (FileSelect names outcome)
  then show ?thesis using assms
    by (auto simp: handleFileSelect_def is_streaming_def truthy_def
        split: upload_outcome.splits intro!: streams_assistant_snoc)
qed (use assms in \<open>auto simp: connectWebSocket_def cleanup_def onerror_def onclose_def Let_def
      split: option.splits\<close>)

lemma reachable_streams_assistant: "reachable s \<Longrightarrow> streams_assistant (messages s)"
proof (induction rule: reachable.induct)
  case reachable_init
  then show ?case by (simp add: init_def streams_assistant_def)
next
  case (reachable_step s now e)
  then show ?case by (simp add: step_streams_assistant)
qed

lemma handle_session_inv:
  assumes sa: "streams_assistant (messages s)" and inv: "session_inv (messages s)"
    and q: "type_in data = ''error'' \<longrightarrow> filter is_streaming (messages s) = []"
  shows "session_inv (messages (handleWebSocketMessage now data s))"
proof -
  consider (status) "type_in data = ''status''"
    | (chunk) "type_in data = ''chunk''"
    | (complete) "type_in data = ''complete''"
    | (error) "type_in data = ''error''"
    | (other) "type_in data \<notin> {''status'', ''chunk'', ''complete'', ''error''}"
    by auto
  then show ?thesis
  proof cases
    case status
    then show ?thesis using inv by (simp add: handleWebSocketMessage_def)
  next
    case chunk
    show ?thesis
    proof (cases "messages s \<noteq> [] \<and> is_streaming (last (messages s))")
      case True
      with sa have "type (last (messages s)) = Assistant"
        by (simp add: streams_assistant_last)
      with True chunk inv show ?thesis
        by (simp add: handleWebSocketMessage_def lastMsg_def is_streaming_def
            session_inv_replace_last)
    next
      case False
      with inv have "filter is_streaming (messages s) = []"
        by (intro session_inv_quiet) auto
      then have "session_inv (messages s @ [m])" for m
        by (rule session_inv_snoc)
      with False chunk show ?thesis
        by (auto simp: handleWebSocketMessage_def lastMsg_def is_streaming_def)
    qed
  next
    case complete
    then show ?thesis using inv
      by (auto simp: handleWebSocketMessage_def lastMsg_def session_inv_replace_last)
  next
    case error
    with q have "filter is_streaming (messages s) = []" by simp
    then have "session_inv (messages s @ [m])" for m
      by (rule session_inv_snoc)
    with error show ?thesis by (simp add: handleWebSocketMessage_def)
  next
    case other
    then show ?thesis using inv by (simp add: handleWebSocketMessage_def)
  qed
qed

section \<open>One streaming entry, last in the log\<close>

text \<open>
  Claim C1, amended. In a reachable state in which at most one entry is streaming and that
  entry is the last, the same holds after the next event, provided that no entry is streaming
  when the event is one that appends an entry which is not streaming (the socket opening, an
  error frame, a send, an upload). Chunk, complete and status frames keep the property with
  no proviso.
\<close>

theorem streaming_invariant_step:
  assumes "reachable s" and "session_inv (messages s)"
    and "appends_entry e \<longrightarrow> filter is_streaming (messages s) = []"
  shows "session_inv (messages (step now e s))"
proof (cases e)
  case (WsMessage i data)
  have "streams_assistant (messages s)"
    using assms(1) by (rule reachable_streams_assistant)
  then have "session_inv (messages (handleWebSocketMessage now data s))"
    using assms(2,3) WsMessage by (intro handle_session_inv) auto
  with WsMessage assms(2) show ?thesis by simp
next
  case (WsOpen i)
  with assms(3) have "session_inv (messages s @ [m])" for m
    by (simp add: session_inv_snoc)
  with WsOpen assms(2) show ?thesis by (simp add: onopen_def)
next
  case SendMessage
  with assms(3) have "session_inv (messages s @ [m])" for m
    by (simp add: session_inv_snoc)
  with SendMessage assms(2) show ?thesis
    by (auto simp: handleSendMessage_def Let_def split: option.splits)
next
  case (FileSelect names outcome)
  with assms(3) have "session_inv (messages s @ [m])" for m
    by (simp add: session_inv_snoc)
  with FileSelect assms(2) show ?thesis
    by (auto simp: handleFileSelect_def split: upload_outcome.splits)
qed (use assms(2) in \<open>auto simp: connectWebSocket_def cleanup_def onerror_def onclose_def Let_def
      split: option.splits\<close>)

theorem streaming_invariant_step_witness:
  "reachable midstream_state
   \<and> session_inv (messages midstream_state)
   \<and> \<not> appends_entry (WsMessage 0 (chunk_event ''Hi there''))
   \<and> session_inv (messages (step 2500 (WsMessage 0 (chunk_event ''Hi there'')) midstream_state))
   \<and> reachable connected_state
   \<and> session_inv (messages connected_state)
   \<and> appends_entry (WsMessage 0 (error_event ''boom''))
   \<and> filter is_streaming (messages connected_state) = []
   \<and> session_inv (messages (step 2500 (WsMessage 0 (error_event ''boom'')) connected_state))"
proof -
  have i1: "session_inv (messages midstream_state)"
    by (simp add: midstream_state_eq session_inv_def is_streaming_def truthy_def)
  have a1: "\<not> appends_entry (WsMessage 0 (chunk_event ''Hi there''))"
    by (simp add: chunk_event_def)
  have q2: "filter is_streaming (messages connected_state) = []"
    by (simp add: connected_state_eq is_streaming_def truthy_def)
  have i2: "session_inv (messages connected_state)"
    using q2 by (simp add: session_inv_def)
  have a2: "appends_entry (WsMessage 0 (error_event ''boom''))"
    by (simp add: error_event_def)
  have r1: "session_inv (messages (step 2500 (WsMessage 0 (chunk_event ''Hi there'')) midstream_state))"
    using a1 by (intro streaming_invariant_step reachable_midstream_state i1) simp
  have r2: "session_inv (messages (step 2500 (WsMessage 0 (error_event ''boom'')) connected_state))"
    using q2 by (intro streaming_invariant_step reachable_connected_state i2) simp
  from reachable_midstream_state reachable_connected_state i1 a1 r1 i2 a2 q2 r2
  show ?thesis by blast
qed

text \<open>
  Without the proviso the property is lost: an error frame that arrives while an answer is in
  flight is appended behind the streaming entry, which stays streaming, and the first chunk
  of the next answer starts a second streaming entry.
\<close>

theorem two_streaming_counterexample:
  "reachable dangling_state
   \<and> map is_streaming (messages dangling_state) = [False, True, False, True]
   \<and> \<not> session_inv (messages dangling_state)"
proof -
  have r: "reachable dangling_state"
    unfolding dangling_state_def by (rule reachable_run) (rule reachable_midstream_state)
  have m: "map is_streaming (messages dangling_state) = [False, True, False, True]"
    by (simp add: dangling_state_def midstream_state_eq handleWebSocketMessage_def
        error_event_def chunk_event_def lastMsg_def truthy_def is_streaming_def)
  have "length (filter is_streaming (messages dangling_state)) = 2"
    by (simp add: dangling_state_def midstream_state_eq handleWebSocketMessage_def
        error_event_def chunk_event_def lastMsg_def truthy_def is_streaming_def)
  then have "\<not> session_inv (messages dangling_state)"
    by (simp add: session_inv_def)
  with r m show ?thesis by simp
qed

section \<open>A chunk frame\<close>

text \<open>
  Claim C2. A chunk frame replaces the content of the last entry by the frame's text when
  that entry is a streaming assistant entry, and otherwise appends a streaming assistant
  entry with that text. So the frames status "processing", chunk "Hi", chunk "Hi there",
  complete, delivered to a session whose last entry is not a streaming assistant entry, add
  exactly one entry: an assistant entry with content "Hi there" that is no longer streaming.
\<close>

theorem partial_event_rule:
  "(type_in data = ''chunk'' \<and> streaming_assistant_last (messages s) \<longrightarrow>
      messages (handleWebSocketMessage now data s)
        = butlast (messages s) @ [(last (messages s))\<lparr>content := full data\<rparr>])
   \<and> (type_in data = ''chunk'' \<and> \<not> streaming_assistant_last (messages s) \<longrightarrow>
      messages (handleWebSocketMessage now data s)
        = messages s @
            [\<lparr>id_msg = now, type = Assistant, content = full data, timestamp = now,
              streaming = Some True, webSearch = None, thinking = None, files = None\<rparr>])
   \<and> (\<not> streaming_assistant_last (messages s) \<longrightarrow>
      messages (deliver [(t1, status_event ''processing''), (t2, chunk_event ''Hi''),
                         (t3, chunk_event ''Hi there''), (t4, complete_event)] s)
        = messages s @
            [\<lparr>id_msg = t2, type = Assistant, content = ''Hi there'', timestamp = t2,
              streaming = Some False, webSearch = None, thinking = None, files = None\<rparr>])"
  by (auto simp: handleWebSocketMessage_def lastMsg_def streaming_assistant_last_def
      is_streaming_def truthy_def status_event_def chunk_event_def complete_event_def)

theorem partial_event_rule_witness:
  "type_in (chunk_event ''Hi there'') = ''chunk''
   \<and> streaming_assistant_last (messages midstream_state)
   \<and> messages (handleWebSocketMessage 2500 (chunk_event ''Hi there'') midstream_state)
       = butlast (messages midstream_state)
           @ [(last (messages midstream_state))\<lparr>content := full (chunk_event ''Hi there'')\<rparr>]
   \<and> \<not> streaming_assistant_last (messages connected_state)
   \<and> messages (handleWebSocketMessage 2500 (chunk_event ''Hi there'') connected_state)
       = messages connected_state @
           [\<lparr>id_msg = 2500, type = Assistant, content = full (chunk_event ''Hi there''),
             timestamp = 2500, streaming = Some True, webSearch = None, thinking = None,
             files = None\<rparr>]
   \<and> messages (deliver [(1900, status_event ''processing''), (2000, chunk_event ''Hi''),
                        (2100, chunk_event ''Hi there''), (2200, complete_event)] connected_state)
       = messages connected_state @
           [\<lparr>id_msg = 2000, type = Assistant, content = ''Hi there'', timestamp = 2000,
             streaming = Some False, webSearch = None, thinking = None, files = None\<rparr>]"
proof -
  have h: "type_in (chunk_event ''Hi there'') = ''chunk''"
    by (simp add: chunk_event_def)
  have a: "streaming_assistant_last (messages midstream_state)"
    by (simp add: midstream_state_eq streaming_assistant_last_def is_streaming_def truthy_def)
  have b: "\<not> streaming_assistant_last (messages connected_state)"
    by (simp add: connected_state_eq streaming_assistant_last_def)
  show ?thesis
    using h a b
      partial_event_rule [of "chunk_event ''Hi there''" midstream_state 2500]
      partial_event_rule [of "chunk_event ''Hi there''" connected_state 2500 1900 2000 2100 2200]
    by blast
qed

section \<open>A complete frame\<close>

text \<open>
  Claim C3, amended. A complete frame clears the busy flag in every state. When the last
  entry is streaming, the frame sets that entry's streaming to false; when it is not, or
  the log is empty, the log stays as it is. The frame also empties the text kept in
  \<^verbatim>\<open>currentMessageRef\<close> and touches nothing else.
\<close>

theorem complete_event_rule:
  assumes "type_in data = ''complete''"
  shows "\<not> isThinking (handleWebSocketMessage now data s)
       \<and> (messages s \<noteq> [] \<and> is_streaming (last (messages s)) \<longrightarrow>
            messages (handleWebSocketMessage now data s)
              = butlast (messages s) @ [(last (messages s))\<lparr>streaming := Some False\<rparr>])
       \<and> (messages s = [] \<or> \<not> is_streaming (last (messages s)) \<longrightarrow>
            messages (handleWebSocketMessage now data s) = messages s)
       \<and> handleWebSocketMessage now data s
           = s\<lparr>isThinking := False, currentMessageRef := [],
               messages := messages (handleWebSocketMessage now data s)\<rparr>"
  using assms by (simp add: handleWebSocketMessage_def lastMsg_def is_streaming_def)

theorem complete_event_rule_witness:
  "type_in complete_event = ''complete''
   \<and> messages midstream_state \<noteq> [] \<and> is_streaming (last (messages midstream_state))
   \<and> \<not> isThinking (handleWebSocketMessage 3000 complete_event midstream_state)
   \<and> messages (handleWebSocketMessage 3000 complete_event midstream_state)
       = butlast (messages midstream_state)
           @ [(last (messages midstream_state))\<lparr>streaming := Some False\<rparr>]
   \<and> \<not> is_streaming (last (messages connected_state))
   \<and> messages (handleWebSocketMessage 3000 complete_event connected_state)
       = messages connected_state"
proof -
  have h: "type_in complete_event = ''complete''"
    by (simp add: complete_event_def)
  have a: "messages midstream_state \<noteq> [] \<and> is_streaming (last (messages midstream_state))"
    by (simp add: midstream_state_eq is_streaming_def truthy_def)
  have b: "\<not> is_streaming (last (messages connected_state))"
    by (simp add: connected_state_eq is_streaming_def truthy_def)
  show ?thesis
    using h a b complete_event_rule [OF h, of 3000 midstream_state]
      complete_event_rule [OF h, of 3000 connected_state]
    by blast
qed

text \<open>
  A complete frame that finds no streaming entry is not without effect: the backend said it
  was thinking, no chunk came, and the complete frame turns the busy flag off.
\<close>

theorem complete_not_noop_counterexample:
  "\<not> is_streaming (last (messages busy_state))
   \<and> isThinking busy_state
   \<and> \<not> isThinking (handleWebSocketMessage 3000 complete_event busy_state)"
  by (simp add: busy_state_eq connected_state_eq handleWebSocketMessage_def complete_event_def
      is_streaming_def truthy_def)

section \<open>Teardown\<close>

text \<open>
  Claim C4. After the cleanup of the mount effect has closed the socket, no reconnect should
  follow, and a pending reconnect timeout should be cancelled. The code does neither. The
  cleanup leaves the socket closing with its \<^verbatim>\<open>onclose\<close> handler attached; when the browser
  reports the closure, the handler schedules a timeout, and the timeout constructs a second
  socket. And when the socket had failed before the cleanup, the timeout that was pending
  survives the cleanup and reconnects as well.
\<close>

theorem reconnect_after_teardown:
  "length (sockets (run [(5000, Unmount)] connected_state)) = 1
   \<and> readyState (sockets (run [(5000, Unmount)] connected_state) ! 0) = CLOSING
   \<and> timers (run [(5000, Unmount), (5005, WsClose 0)] connected_state) = 1
   \<and> length (sockets (run [(5000, Unmount), (5005, WsClose 0), (8005, ReconnectTimer)]
                        connected_state)) = 2
   \<and> wsRef (run [(5000, Unmount), (5005, WsClose 0), (8005, ReconnectTimer)] connected_state)
       = Some 1
   \<and> readyState (sockets (run [(5000, Unmount), (5005, WsClose 0), (8005, ReconnectTimer)]
                            connected_state) ! 1) = CONNECTING
   \<and> timers (run [(1000, Mount), (1010, WsError 0), (1010, WsClose 0), (1500, Unmount)] init) = 1
   \<and> length (sockets (run [(1000, Mount), (1010, WsError 0), (1010, WsClose 0), (1500, Unmount),
                            (4010, ReconnectTimer)] init)) = 2"
  by (simp add: connected_state_eq init_def cleanup_def close_def onclose_def onerror_def
      connectWebSocket_def)

section \<open>Sending a message\<close>

text \<open>
  Claim C5, amended. When the input is empty after trimming, or the connection status is not
  \<^verbatim>\<open>'connected'\<close>, \<^verbatim>\<open>handleSendMessage\<close> returns without raising an error and the state is what
  it was: no entry is appended and no frame is sent.
\<close>

theorem submit_rejected:
  assumes "trim (inputText s) = [] \<or> connectionStatus s \<noteq> Connected"
  shows "handleSendMessage now s = (Inr (), s)
       \<and> messages (snd (handleSendMessage now s)) = messages s
       \<and> sockets (snd (handleSendMessage now s)) = sockets s"
  using assms by (auto simp: handleSendMessage_def)

theorem submit_rejected_witness:
  "(trim (inputText (connected_state\<lparr>inputText := ''   ''\<rparr>)) = []
      \<or> connectionStatus (connected_state\<lparr>inputText := ''   ''\<rparr>) \<noteq> Connected)
   \<and> handleSendMessage 3000 (connected_state\<lparr>inputText := ''   ''\<rparr>)
       = (Inr (), connected_state\<lparr>inputText := ''   ''\<rparr>)
   \<and> (trim (inputText (init\<lparr>inputText := ''hello''\<rparr>)) = []
      \<or> connectionStatus (init\<lparr>inputText := ''hello''\<rparr>) \<noteq> Connected)
   \<and> handleSendMessage 3000 (init\<lparr>inputText := ''hello''\<rparr>)
       = (Inr (), init\<lparr>inputText := ''hello''\<rparr>)"
proof -
  have h1: "trim (inputText (connected_state\<lparr>inputText := ''   ''\<rparr>)) = []
      \<or> connectionStatus (connected_state\<lparr>inputText := ''   ''\<rparr>) \<noteq> Connected"
    by (simp add: trim_blank)
  have h2: "trim (inputText (init\<lparr>inputText := ''hello''\<rparr>)) = []
      \<or> connectionStatus (init\<lparr>inputText := ''hello''\<rparr>) \<noteq> Connected"
    by (simp add: init_def)
  show ?thesis
    using h1 h2 submit_rejected [OF h1, of 3000] submit_rejected [OF h2, of 3000]
    by blast
qed

text \<open>
  A rejected call does not fail: with blank input in a connected session, and with text in a
  session that is not connected, the call completes normally and no \<open>NotReadyError\<close> reaches
  the caller.
\<close>

theorem submit_no_error_counterexample:
  "trim (inputText (connected_state\<lparr>inputText := ''   ''\<rparr>)) = []
   \<and> fst (handleSendMessage 3000 (connected_state\<lparr>inputText := ''   ''\<rparr>)) \<noteq> Inl NotReadyError
   \<and> connectionStatus (init\<lparr>inputText := ''hello''\<rparr>) \<noteq> Connected
   \<and> fst (handleSendMessage 3000 (init\<lparr>inputText := ''hello''\<rparr>)) \<noteq> Inl NotReadyError"
  by (simp add: handleSendMessage_def trim_blank init_def)

text \<open>
  Claim C6, amended. When the input is not empty after trimming and the connection status is
  \<^verbatim>\<open>'connected'\<close>, \<^verbatim>\<open>handleSendMessage\<close> appends exactly one user entry, not streaming, with the
  input text and the two modifier flags. If the socket in \<^verbatim>\<open>wsRef\<close> is open it hands exactly one
  frame to that socket, of type \<^verbatim>\<open>"chat"\<close> with the text, the two flags and the selected model;
  if there is no such socket or it is not open, nothing is sent.
\<close>

theorem submit_accepted:
  assumes "trim (inputText s) \<noteq> []" and "connectionStatus s = Connected"
  shows "fst (handleSendMessage now s) = Inr ()
       \<and> messages (snd (handleSendMessage now s))
           = messages s @
               [\<lparr>id_msg = now, type = User, content = inputText s, timestamp = now,
                 streaming = None, webSearch = Some (webSearchEnabled s),
                 thinking = Some (thinkingMode s), files = None\<rparr>]
       \<and> (ws_open s \<longrightarrow>
            sockets (snd (handleSendMessage now s))
              = (sockets s)[the (wsRef s) :=
                  (sockets s ! the (wsRef s))\<lparr>sent := sent (sockets s ! the (wsRef s)) @
                    [\<lparr>type_out = ''chat'', message_out = inputText s,
                      webSearch_out = webSearchEnabled s, thinkingMode_out = thinkingMode s,
                      model = selectedModel s\<rparr>]\<rparr>]
            \<and> frames_sent (snd (handleSendMessage now s)) = frames_sent s + 1)
       \<and> (\<not> ws_open s \<longrightarrow> sockets (snd (handleSendMessage now s)) = sockets s)"
  using assms
  by (auto simp: handleSendMessage_def ws_open_def frames_sent_def Let_def
      sum_list_map_update_Suc split: option.splits)

theorem submit_accepted_witness:
  "trim (inputText (connected_state\<lparr>inputText := ''hello''\<rparr>)) \<noteq> []
   \<and> connectionStatus (connected_state\<lparr>inputText := ''hello''\<rparr>) = Connected
   \<and> ws_open (connected_state\<lparr>inputText := ''hello''\<rparr>)
   \<and> fst (handleSendMessage 3000 (connected_state\<lparr>inputText := ''hello''\<rparr>)) = Inr ()
   \<and> messages (snd (handleSendMessage 3000 (connected_state\<lparr>inputText := ''hello''\<rparr>)))
       = messages connected_state @
           [\<lparr>id_msg = 3000, type = User, content = ''hello'', timestamp = 3000,
             streaming = None, webSearch = Some False, thinking = Some False, files = None\<rparr>]
   \<and> sockets (snd (handleSendMessage 3000 (connected_state\<lparr>inputText := ''hello''\<rparr>)))
       = [\<lparr>readyState = OPEN,
           sent = [\<lparr>type_out = ''chat'', message_out = ''hello'', webSearch_out = False,
                    thinkingMode_out = False, model = ''phi3:3.8b''\<rparr>]\<rparr>]"
proof -
  let ?s = "connected_state\<lparr>inputText := ''hello''\<rparr>"
  have h1: "trim (inputText ?s) \<noteq> []" by (simp add: trim_hello)
  have h2: "connectionStatus ?s = Connected" by (simp add: connected_state_eq)
  have h3: "ws_open ?s" by (simp add: ws_open_def connected_state_eq)
  from submit_accepted [OF h1 h2, of 3000] h3
  have "fst (handleSendMessage 3000 ?s) = Inr ()"
    and "messages (snd (handleSendMessage 3000 ?s))
           = messages ?s @
               [\<lparr>id_msg = 3000, type = User, content = inputText ?s, timestamp = 3000,
                 streaming = None, webSearch = Some (webSearchEnabled ?s),
                 thinking = Some (thinkingMode ?s), files = None\<rparr>]"
    and "sockets (snd (handleSendMessage 3000 ?s))
              = (sockets ?s)[the (wsRef ?s) :=
                  (sockets ?s ! the (wsRef ?s))\<lparr>sent := sent (sockets ?s ! the (wsRef ?s)) @
                    [\<lparr>type_out = ''chat'', message_out = inputText ?s,
                      webSearch_out = webSearchEnabled ?s, thinkingMode_out = thinkingMode ?s,
                      model = selectedModel ?s\<rparr>]\<rparr>]"
    by blast+
  then show ?thesis
    using h1 h2 h3 by (simp add: connected_state_eq)
qed

text \<open>
  The status cell can say \<^verbatim>\<open>'connected'\<close> while the socket in \<^verbatim>\<open>wsRef\<close> is not open. Then the
  entry is appended and no frame is sent.
\<close>

theorem submit_without_send_counterexample:
  "trim (inputText remount_state) \<noteq> []
   \<and> connectionStatus remount_state = Connected
   \<and> fst (handleSendMessage 4012 remount_state) = Inr ()
   \<and> length (messages (snd (handleSendMessage 4012 remount_state)))
       = length (messages remount_state) + 1
   \<and> sockets (snd (handleSendMessage 4012 remount_state)) = sockets remount_state
   \<and> frames_sent (snd (handleSendMessage 4012 remount_state)) = 0"
  by (simp add: remount_state_eq trim_hello handleSendMessage_def frames_sent_def)

section \<open>An error frame\<close>

text \<open>
  Claim C7. An \<^verbatim>\<open>error\<close> frame appends exactly one entry, of type error and not streaming, and
  clears the busy flag. Every entry that was there before is unchanged, at its old position;
  in particular an entry that was streaming still has its content and is still streaming.
\<close>

theorem error_event_appends:
  assumes "type_in data = ''error''"
  shows "messages (handleWebSocketMessage now data s)
           = messages s @
               [\<lparr>id_msg = now, type = Error, content = ''Error: '' @ message_in data,
                 timestamp = now, streaming = None, webSearch = None, thinking = None,
                 files = None\<rparr>]
         \<and> \<not> isThinking (handleWebSocketMessage now data s)
         \<and> (\<forall>i < length (messages s).
               messages (handleWebSocketMessage now data s) ! i = messages s ! i)"
  using assms by (simp add: handleWebSocketMessage_def nth_append)

theorem error_event_appends_witness:
  "type_in (error_event ''boom'') = ''error''
   \<and> length (messages (handleWebSocketMessage 3000 (error_event ''boom'') midstream_state)) = 3
   \<and> type (messages (handleWebSocketMessage 3000 (error_event ''boom'') midstream_state) ! 2) = Error
   \<and> content (messages (handleWebSocketMessage 3000 (error_event ''boom'') midstream_state) ! 2)
       = ''Error: boom''
   \<and> content (messages (handleWebSocketMessage 3000 (error_event ''boom'') midstream_state) ! 1)
       = ''Hi''
   \<and> is_streaming (messages (handleWebSocketMessage 3000 (error_event ''boom'') midstream_state) ! 1)
   \<and> \<not> isThinking (handleWebSocketMessage 3000 (error_event ''boom'') midstream_state)"
proof -
  have h: "type_in (error_event ''boom'') = ''error''"
    by (simp add: error_event_def)
  have ms: "messages midstream_state =
      [\<lparr>id_msg = 1020, type = System, content = ''Connected to JARVIS. Ready to assist!'',
         timestamp = 1020, streaming = None, webSearch = None, thinking = None,
         files = None\<rparr>,
       \<lparr>id_msg = 2000, type = Assistant, content = ''Hi'', timestamp = 2000,
         streaming = Some True, webSearch = None, thinking = None, files = None\<rparr>]"
    by (simp add: midstream_state_eq)
  have app: "messages (handleWebSocketMessage 3000 (error_event ''boom'') midstream_state)
      = messages midstream_state @
          [\<lparr>id_msg = 3000, type = Error, content = ''Error: '' @ message_in (error_event ''boom''),
            timestamp = 3000, streaming = None, webSearch = None, thinking = None,
            files = None\<rparr>]"
    and busy: "\<not> isThinking (handleWebSocketMessage 3000 (error_event ''boom'') midstream_state)"
    using error_event_appends [OF h, of 3000 midstream_state] by blast+
  show ?thesis
    unfolding app ms using h busy
    by (simp add: is_streaming_def truthy_def error_event_def)
qed

section \<open>Entry identifiers\<close>

text \<open>
  Claim C8. The entries of a session should have pairwise different ids; the view uses the id
  as the React key of the entry. The id is the clock in milliseconds at the moment the entry
  is built, so two entries built in the same millisecond share their id: here two error
  frames that the socket delivers back to back.
\<close>

theorem duplicate_ids:
  "map id_msg (messages (run [(3000, WsMessage 0 (error_event ''model not found'')),
                               (3000, WsMessage 0 (error_event ''request failed''))]
                           connected_state))
     = [1020, 3000, 3000]
   \<and> \<not> distinct (map id_msg (messages
         (run [(3000, WsMessage 0 (error_event ''model not found'')),
               (3000, WsMessage 0 (error_event ''request failed''))] connected_state)))"
  by (simp add: connected_state_eq handleWebSocketMessage_def error_event_def)

section \<open>Uploading files\<close>




section \<open>Frames the handler ignores\<close>

text \<open>
  Claim C10. An inbound frame of type \<^verbatim>\<open>'status'\<close> whose status is not \<^verbatim>\<open>'thinking'\<close>, and a frame
  whose type is none of \<^verbatim>\<open>'status'\<close>, \<^verbatim>\<open>'chunk'\<close>, \<^verbatim>\<open>'complete'\<close>, \<^verbatim>\<open>'error'\<close>, \<^verbatim>\<open>'pong'\<close>, leaves the whole
  client state as it was: no entry is appended or changed and the busy flag keeps its value.
\<close>

theorem ignored_events_leave_state:
  assumes "(type_in data = ''status'' \<and> status data \<noteq> ''thinking'')
           \<or> type_in data \<notin> {''status'', ''chunk'', ''complete'', ''error'', ''pong''}"
  shows "handleWebSocketMessage now data s = s"
  using assms by (auto simp: handleWebSocketMessage_def)

theorem ignored_events_leave_state_witness:
  "((type_in (status_event ''processing'') = ''status''
       \<and> status (status_event ''processing'') \<noteq> ''thinking'')
     \<or> type_in (status_event ''processing'')
          \<notin> {''status'', ''chunk'', ''complete'', ''error'', ''pong''})
   \<and> handleWebSocketMessage 3000 (status_event ''processing'') midstream_state = midstream_state
   \<and> ((type_in \<lparr>type_in = ''typing'', status = [], full = ''x'', message_in = []\<rparr> = ''status''
       \<and> status \<lparr>type_in = ''typing'', status = [], full = ''x'', message_in = []\<rparr> \<noteq> ''thinking'')
     \<or> type_in \<lparr>type_in = ''typing'', status = [], full = ''x'', message_in = []\<rparr>
          \<notin> {''status'', ''chunk'', ''complete'', ''error'', ''pong''})
   \<and> handleWebSocketMessage 3000 \<lparr>type_in = ''typing'', status = [], full = ''x'', message_in = []\<rparr>
        midstream_state = midstream_state"
proof -
  have h1: "(type_in (status_event ''processing'') = ''status''
               \<and> status (status_event ''processing'') \<noteq> ''thinking'')
            \<or> type_in (status_event ''processing'')
                 \<notin> {''status'', ''chunk'', ''complete'', ''error'', ''pong''}"
    by (simp add: status_event_def)
  have h2: "(type_in \<lparr>type_in = ''typing'', status = [], full = ''x'', message_in = []\<rparr> = ''status''
               \<and> status \<lparr>type_in = ''typing'', status = [], full = ''x'', message_in = []\<rparr>
                   \<noteq> ''thinking'')
            \<or> type_in \<lparr>type_in = ''typing'', status = [], full = ''x'', message_in = []\<rparr>
                 \<notin> {''status'', ''chunk'', ''complete'', ''error'', ''pong''}"
    by simp
  show ?thesis
    using h1 h2 ignored_events_leave_state [OF h1, of 3000 midstream_state]
      ignored_events_leave_state [OF h2, of 3000 midstream_state]
    by blast
qed

end
